theory Spec2Isabelle
  imports Complex_Main
begin

section \<open>The concrete vector and the store it lives in\<close>

text \<open>
  \<^verbatim>\<open>template<typename S> class Vector3D\<close> owns three scalars \<^verbatim>\<open>m_x\<close>, \<^verbatim>\<open>m_y\<close>,
  \<^verbatim>\<open>m_z\<close>. The scalar type \<^verbatim>\<open>S\<close> is a template parameter of the source and a type
  variable \<open>'s\<close> here; each definition asks of it only the operations the source
  applies to it.
\<close>

record 's Vector3D =
  m_x :: 's
  m_y :: 's
  m_z :: 's

text \<open>
  Expression nodes hold their operands by reference (\<^verbatim>\<open>const Vector3D_Expr<S, E>&\<close>),
  and the compound assignments write through \<^verbatim>\<open>this\<close> while reading through such
  references. Named vectors therefore live in a store, and an expression reaches them
  by address. Every address holds a vector: an operand outlives the expression that
  refers to it.
\<close>

type_synonym addr = nat

type_synonym 's store = "addr \<Rightarrow> 's Vector3D"

text \<open>The three constructors of \<^verbatim>\<open>Vector3D\<close> that take no expression.\<close>

definition Vector3D_default :: "'s::zero Vector3D" where
  "Vector3D_default = \<lparr>m_x = 0, m_y = 0, m_z = 0\<rparr>"

definition Vector3D_xyz :: "'s \<Rightarrow> 's \<Rightarrow> 's \<Rightarrow> 's Vector3D" where
  "Vector3D_xyz x y z = \<lparr>m_x = x, m_y = y, m_z = z\<rparr>"

definition Vector3D_value :: "'s \<Rightarrow> 's Vector3D" where
  "Vector3D_value v = \<lparr>m_x = v, m_y = v, m_z = v\<rparr>"

section \<open>Expression templates\<close>

text \<open>
  One constructor for each class derived from \<^verbatim>\<open>Vector3D_Expr\<close>. \<open>Vec p\<close> is the
  concrete vector stored at \<open>p\<close>; the other nodes are the temporaries an operator
  returns, holding their operand nodes and, for the scalar operations, the scalar
  \<^verbatim>\<open>m_s\<close> by value.

  \<^verbatim>\<open>Vector3D_NegateExpr\<close> differs from the other nodes: its member is declared
  \<^verbatim>\<open>const E& m_vec\<close>, a reference to the operand's own class \<^verbatim>\<open>E\<close>, where every
  other node declares \<^verbatim>\<open>const Vector3D_Expr<S, E>&\<close>. Its constructor initialises
  the member from a \<^verbatim>\<open>const Vector3D_Expr<S, E>&\<close>, which is a base of \<^verbatim>\<open>E\<close> and
  converts to \<^verbatim>\<open>E\<close> only where \<^verbatim>\<open>E\<close> has a constructor taking it. \<^verbatim>\<open>Vector3D\<close> is
  the one class that has, so a node of this class exists only for a \<^verbatim>\<open>Vector3D\<close>
  operand, and its member refers to the temporary \<^verbatim>\<open>Vector3D\<close> which that
  conversion creates. The node therefore holds an address: the place of that
  temporary.
\<close>

datatype 's expr =
    Vec addr
  | Vector3D_SumExpr "'s expr" "'s expr"
  | Vector3D_DiffExpr "'s expr" "'s expr"
  | Vector3D_NegateExpr addr
  | Vector3D_MultExpr "'s expr" 's
  | Vector3D_DivExpr "'s expr" 's
  | Vector3D_CrossExpr "'s expr" "'s expr"

datatype axis = X | Y | Z

fun member :: "axis \<Rightarrow> 's Vector3D \<Rightarrow> 's" where
  "member X v = m_x v"
| "member Y v = m_y v"
| "member Z v = m_z v"

text \<open>
  \<open>component s e c\<close> is the value of the accessor \<^verbatim>\<open>x()\<close>, \<^verbatim>\<open>y()\<close> or \<^verbatim>\<open>z()\<close>
  (chosen by \<open>c\<close>) called on the node \<open>e\<close> in the store \<open>s\<close>. Each equation is the
  body of the accessor of that class.
\<close>

fun component :: "'s::{plus,minus,uminus,times,inverse} store \<Rightarrow> 's expr \<Rightarrow> axis \<Rightarrow> 's" where
  "component s (Vec p) c = member c (s p)"
| "component s (Vector3D_SumExpr l r) c = component s l c + component s r c"
| "component s (Vector3D_DiffExpr l r) c = component s l c - component s r c"
| "component s (Vector3D_NegateExpr m_vec) c = - member c (s m_vec)"
| "component s (Vector3D_MultExpr v k) c = component s v c * k"
| "component s (Vector3D_DivExpr v k) c = component s v c / k"
| "component s (Vector3D_CrossExpr a b) X =
     component s a Y * component s b Z - component s b Y * component s a Z"
| "component s (Vector3D_CrossExpr a b) Y =
     component s a Z * component s b X - component s b Z * component s a X"
| "component s (Vector3D_CrossExpr a b) Z =
     component s a X * component s b Y - component s b X * component s a Y"

definition x :: "'s::{plus,minus,uminus,times,inverse} store \<Rightarrow> 's expr \<Rightarrow> 's" where
  "x s e = component s e X"

definition y :: "'s::{plus,minus,uminus,times,inverse} store \<Rightarrow> 's expr \<Rightarrow> 's" where
  "y s e = component s e Y"

definition z :: "'s::{plus,minus,uminus,times,inverse} store \<Rightarrow> 's expr \<Rightarrow> 's" where
  "z s e = component s e Z"

text \<open>The operations \<^verbatim>\<open>Vector3D_Expr\<close> derives from the three accessors.\<close>

definition dot :: "'s::{plus,minus,uminus,times,inverse} store \<Rightarrow> 's expr \<Rightarrow> 's expr \<Rightarrow> 's" where
  "dot s e vector = x s e * x s vector + y s e * y s vector + z s e * z s vector"

definition cross :: "'s expr \<Rightarrow> 's expr \<Rightarrow> 's expr" where
  "cross e other = Vector3D_CrossExpr e other"

definition squaredNorm :: "'s::{plus,minus,uminus,times,inverse} store \<Rightarrow> 's expr \<Rightarrow> 's" where
  "squaredNorm s e = dot s e e"

text \<open>
  The constructor \<^verbatim>\<open>Vector3D(const Vector3D_Expr<S2, E>& vector)\<close>: the three members
  are initialised from \<^verbatim>\<open>vector.x()\<close>, \<^verbatim>\<open>vector.y()\<close>, \<^verbatim>\<open>vector.z()\<close>.
\<close>

definition Vector3D_expr :: "'s::{plus,minus,uminus,times,inverse} store \<Rightarrow> 's expr \<Rightarrow> 's Vector3D" where
  "Vector3D_expr s vector = \<lparr>m_x = x s vector, m_y = y s vector, m_z = z s vector\<rparr>"

text \<open>The operators that build the nodes.\<close>

definition operator_plus :: "'s expr \<Rightarrow> 's expr \<Rightarrow> 's expr" where
  "operator_plus augend addend = Vector3D_SumExpr augend addend"

definition operator_minus :: "'s expr \<Rightarrow> 's expr \<Rightarrow> 's expr" where
  "operator_minus minuend subtrahend = Vector3D_DiffExpr minuend subtrahend"

definition operator_times :: "'s expr \<Rightarrow> 's \<Rightarrow> 's expr" where
  "operator_times vector scalar = Vector3D_MultExpr vector scalar"

definition operator_times_left :: "'s \<Rightarrow> 's expr \<Rightarrow> 's expr" where
  "operator_times_left scalar vector = Vector3D_MultExpr vector scalar"

definition operator_divide :: "'s expr \<Rightarrow> 's \<Rightarrow> 's expr" where
  "operator_divide vector scalar = Vector3D_DivExpr vector scalar"

section \<open>Accessor calls made while an expression is evaluated\<close>

text \<open>
  The same accessors, returning beside the value the list of accessor calls the
  evaluation makes: a call is the node it is made on and the accessor called. A node's
  own call comes first, then the calls its body makes on its operands, the left
  operand of each arithmetic operator before the right one. (The language leaves the
  order of the two operands open; how often a call occurs does not depend on it.)
\<close>

type_synonym 's call = "'s expr \<times> axis"

fun component_log ::
  "'s::{plus,minus,uminus,times,inverse} store \<Rightarrow> 's expr \<Rightarrow> axis \<Rightarrow> 's \<times> 's call list" where
  "component_log s (Vec p) c = (member c (s p), [(Vec p, c)])"
| "component_log s (Vector3D_SumExpr l r) c =
     (case component_log s l c of (a, la) \<Rightarrow>
      case component_log s r c of (b, lb) \<Rightarrow>
        (a + b, (Vector3D_SumExpr l r, c) # la @ lb))"
| "component_log s (Vector3D_DiffExpr l r) c =
     (case component_log s l c of (a, la) \<Rightarrow>
      case component_log s r c of (b, lb) \<Rightarrow>
        (a - b, (Vector3D_DiffExpr l r, c) # la @ lb))"
| "component_log s (Vector3D_NegateExpr m_vec) c =
     (- member c (s m_vec), [(Vector3D_NegateExpr m_vec, c), (Vec m_vec, c)])"
| "component_log s (Vector3D_MultExpr v k) c =
     (case component_log s v c of (a, la) \<Rightarrow>
        (a * k, (Vector3D_MultExpr v k, c) # la))"
| "component_log s (Vector3D_DivExpr v k) c =
     (case component_log s v c of (a, la) \<Rightarrow>
        (a / k, (Vector3D_DivExpr v k, c) # la))"
| "component_log s (Vector3D_CrossExpr a b) X =
     (case component_log s a Y of (ay, l1) \<Rightarrow>
      case component_log s b Z of (bz, l2) \<Rightarrow>
      case component_log s b Y of (by, l3) \<Rightarrow>
      case component_log s a Z of (az, l4) \<Rightarrow>
        (ay * bz - by * az, (Vector3D_CrossExpr a b, X) # l1 @ l2 @ l3 @ l4))"
| "component_log s (Vector3D_CrossExpr a b) Y =
     (case component_log s a Z of (az, l1) \<Rightarrow>
      case component_log s b X of (bx, l2) \<Rightarrow>
      case component_log s b Z of (bz, l3) \<Rightarrow>
      case component_log s a X of (ax, l4) \<Rightarrow>
        (az * bx - bz * ax, (Vector3D_CrossExpr a b, Y) # l1 @ l2 @ l3 @ l4))"
| "component_log s (Vector3D_CrossExpr a b) Z =
     (case component_log s a X of (ax, l1) \<Rightarrow>
      case component_log s b Y of (by, l2) \<Rightarrow>
      case component_log s b X of (bx, l3) \<Rightarrow>
      case component_log s a Y of (ay, l4) \<Rightarrow>
        (ax * by - bx * ay, (Vector3D_CrossExpr a b, Z) # l1 @ l2 @ l3 @ l4))"

text \<open>
  The constructor from an expression with its calls: the member initialisers run in
  the order of the members, \<^verbatim>\<open>m_x(vector.x())\<close>, \<^verbatim>\<open>m_y(vector.y())\<close>,
  \<^verbatim>\<open>m_z(vector.z())\<close>.
\<close>

definition Vector3D_expr_log ::
  "'s::{plus,minus,uminus,times,inverse} store \<Rightarrow> 's expr \<Rightarrow> 's Vector3D \<times> 's call list" where
  "Vector3D_expr_log s vector =
     (case component_log s vector X of (vx, lx) \<Rightarrow>
      case component_log s vector Y of (vy, ly) \<Rightarrow>
      case component_log s vector Z of (vz, lz) \<Rightarrow>
        (\<lparr>m_x = vx, m_y = vy, m_z = vz\<rparr>, lx @ ly @ lz))"

fun on_vector :: "'s call \<Rightarrow> bool" where
  "on_vector (Vec p, c) = True"
| "on_vector (e, c) = False"

section \<open>Operations that write to a concrete vector\<close>

text \<open>
  \<open>this\<close> is the address of the vector written to. Each statement of the source is one
  update of the store, and the right-hand side of each statement is evaluated in the
  store as the statements before it left it: when the expression refers to \<open>this\<close>
  itself, it sees the members already overwritten.
\<close>

definition setConstant :: "addr \<Rightarrow> 's \<Rightarrow> 's store \<Rightarrow> 's store" where
  "setConstant this scalar s = s(this := \<lparr>m_x = scalar, m_y = scalar, m_z = scalar\<rparr>)"

definition operator_plus_assign ::
  "addr \<Rightarrow> 's::{plus,minus,uminus,times,inverse} expr \<Rightarrow> 's store \<Rightarrow> 's store" where
  "operator_plus_assign this vector s =
     (let s1 = s(this := (s this)\<lparr>m_x := m_x (s this) + x s vector\<rparr>);
          s2 = s1(this := (s1 this)\<lparr>m_y := m_y (s1 this) + y s1 vector\<rparr>);
          s3 = s2(this := (s2 this)\<lparr>m_z := m_z (s2 this) + z s2 vector\<rparr>)
      in s3)"

definition operator_minus_assign ::
  "addr \<Rightarrow> 's::{plus,minus,uminus,times,inverse} expr \<Rightarrow> 's store \<Rightarrow> 's store" where
  "operator_minus_assign this vector s =
     (let s1 = s(this := (s this)\<lparr>m_x := m_x (s this) - x s vector\<rparr>);
          s2 = s1(this := (s1 this)\<lparr>m_y := m_y (s1 this) - y s1 vector\<rparr>);
          s3 = s2(this := (s2 this)\<lparr>m_z := m_z (s2 this) - z s2 vector\<rparr>)
      in s3)"

definition operator_divide_assign :: "addr \<Rightarrow> 's::inverse \<Rightarrow> 's store \<Rightarrow> 's store" where
  "operator_divide_assign this scalar s =
     (let s1 = s(this := (s this)\<lparr>m_x := m_x (s this) / scalar\<rparr>);
          s2 = s1(this := (s1 this)\<lparr>m_y := m_y (s1 this) / scalar\<rparr>);
          s3 = s2(this := (s2 this)\<lparr>m_z := m_z (s2 this) / scalar\<rparr>)
      in s3)"

definition operator_times_assign :: "addr \<Rightarrow> 's::times \<Rightarrow> 's store \<Rightarrow> 's store" where
  "operator_times_assign this scalar s =
     (let s1 = s(this := (s this)\<lparr>m_x := m_x (s this) * scalar\<rparr>);
          s2 = s1(this := (s1 this)\<lparr>m_y := m_y (s1 this) * scalar\<rparr>);
          s3 = s2(this := (s2 this)\<lparr>m_z := m_z (s2 this) * scalar\<rparr>)
      in s3)"

section \<open>Norm and normalisation\<close>

text \<open>
  \<^verbatim>\<open>std::sqrt\<close> of \<^verbatim>\<open><cmath>\<close> on a real scalar: a negative argument is a domain
  error (the call reports it and returns no number), any other argument gives the
  square root. The error is a value here, so that a caller of \<^verbatim>\<open>norm()\<close> that could
  meet it has a branch for it. \<^verbatim>\<open>norm()\<close> is \<open>norm_3d\<close>, the name \<open>norm\<close> being taken.
\<close>

datatype math_error = Domain_error

definition std_sqrt :: "real \<Rightarrow> math_error + real" where
  "std_sqrt a = (if a < 0 then Inl Domain_error else Inr (sqrt a))"

definition norm_3d :: "real store \<Rightarrow> real expr \<Rightarrow> math_error + real" where
  "norm_3d s e = std_sqrt (squaredNorm s e)"

text \<open>
  \<^verbatim>\<open>normalized()\<close> is a \<^verbatim>\<open>const\<close> member function returning a new vector by value. It
  is given the store and returns it beside its result, so that what it leaves of
  \<open>this\<close> can be stated.
\<close>

definition normalized :: "addr \<Rightarrow> real store \<Rightarrow> (math_error + real Vector3D) \<times> real store" where
  "normalized this s =
     (case norm_3d s (Vec this) of
        Inl err \<Rightarrow> (Inl err, s)
      | Inr n \<Rightarrow>
          (Inr (Vector3D_xyz (m_x (s this) / n) (m_y (s this) / n) (m_z (s this) / n)), s))"

section \<open>Unary minus and equality, as the source writes them\<close>

text \<open>
  Two functions of the source name something other than what their documentation
  describes, and the constructor of \<^verbatim>\<open>Vector3D_NegateExpr\<close> initialises a reference
  with an object of another class. What a compiler reports where it rejects a call
  is a value of \<open>compile_error\<close>.
\<close>

datatype compile_error =
    Undeclared_identifier string
  | Invalid_use_of_member_function string
  | Invalid_initialization_of_reference

text \<open>
  The class of an expression: the argument \<^verbatim>\<open>E\<close> of its base
  \<^verbatim>\<open>Vector3D_Expr<S, E>\<close>. Template argument deduction and the binding of references
  go by it.
\<close>

datatype cpp_class =
    Vector3D_class
  | SumExpr_class cpp_class cpp_class
  | DiffExpr_class cpp_class cpp_class
  | NegateExpr_class cpp_class
  | MultExpr_class cpp_class
  | DivExpr_class cpp_class
  | CrossExpr_class cpp_class cpp_class

fun class_of :: "'s expr \<Rightarrow> cpp_class" where
  "class_of (Vec p) = Vector3D_class"
| "class_of (Vector3D_SumExpr l r) = SumExpr_class (class_of l) (class_of r)"
| "class_of (Vector3D_DiffExpr l r) = DiffExpr_class (class_of l) (class_of r)"
| "class_of (Vector3D_NegateExpr m_vec) = NegateExpr_class Vector3D_class"
| "class_of (Vector3D_MultExpr v k) = MultExpr_class (class_of v)"
| "class_of (Vector3D_DivExpr v k) = DivExpr_class (class_of v)"
| "class_of (Vector3D_CrossExpr a b) = CrossExpr_class (class_of a) (class_of b)"

text \<open>
  The constructor \<^verbatim>\<open>Vector3D_NegateExpr(const Vector3D_Expr<S, E>& vec)\<close> with its
  initialiser \<^verbatim>\<open>m_vec(vec)\<close>. For an operand of a class other than \<^verbatim>\<open>Vector3D\<close> the
  initialiser is ill-formed. For a \<^verbatim>\<open>Vector3D\<close> operand it copies the operand into a
  temporary at \<open>temp\<close> and binds \<^verbatim>\<open>m_vec\<close> to it; the temporary lasts until the
  constructor returns, and the node is left with a reference to storage that no
  longer holds it. \<open>temp\<close> is storage not otherwise in use, and \<open>after\<close> is what
  it holds from then on, about which nothing is known.
\<close>

definition Vector3D_NegateExpr_init ::
  "addr \<Rightarrow> 's Vector3D \<Rightarrow> 's::{plus,minus,uminus,times,inverse} expr \<Rightarrow> 's store
     \<Rightarrow> compile_error + 's expr \<times> 's store" where
  "Vector3D_NegateExpr_init temp after vec s =
     (if class_of vec = Vector3D_class then
        let constructing = s(temp := Vector3D_expr s vec)
        in Inr (Vector3D_NegateExpr temp, constructing(temp := after))
      else Inl Invalid_initialization_of_reference)"

text \<open>
  \<^verbatim>\<open>operator-(const Vector3D_Expr<S, E>& vector)\<close> has the body
  \<^verbatim>\<open>return Vector3D_NegateExpr<S, E>(v);\<close>. The name in the constructor call is \<^verbatim>\<open>v\<close>,
  not the parameter \<^verbatim>\<open>vector\<close>, and the function declares no \<^verbatim>\<open>v\<close>: the name is
  looked up in the scope around the template. A \<open>scope\<close> gives the vector expressions
  that names declared there stand for. The header itself declares no variable, so
  with the header alone the scope is empty. The parameter \<^verbatim>\<open>vector\<close> fixes \<^verbatim>\<open>E\<close>, and a
  \<^verbatim>\<open>v\<close> that is found must bind to the constructor's parameter
  \<^verbatim>\<open>const Vector3D_Expr<S, E>&\<close>: it must be of the class of \<^verbatim>\<open>vector\<close>.
\<close>

type_synonym 's scope = "string \<Rightarrow> 's expr option"

definition operator_negate ::
  "'s scope \<Rightarrow> addr \<Rightarrow> 's Vector3D \<Rightarrow> 's::{plus,minus,uminus,times,inverse} expr \<Rightarrow> 's store
     \<Rightarrow> compile_error + 's expr \<times> 's store" where
  "operator_negate scope temp after vector s =
     (case scope ''v'' of
        None \<Rightarrow> Inl (Undeclared_identifier ''v'')
      | Some v \<Rightarrow>
          if class_of v = class_of vector then Vector3D_NegateExpr_init temp after v s
          else Inl Invalid_initialization_of_reference)"

text \<open>
  \<^verbatim>\<open>Vector3D::operator==\<close> returns
  \<^verbatim>\<open>m_x == vector.x && m_y == vector.y && m_z == vector.z\<close>. The right operand of each
  comparison is the accessor itself, with no call. An operand of a comparison is
  either a scalar or the name of a member function; comparing a scalar with the
  latter is ill-formed.
\<close>

datatype 's operand = Scalar 's | Member_function string

fun equals :: "'s \<Rightarrow> 's operand \<Rightarrow> compile_error + bool" where
  "equals a (Scalar b) = Inr (a = b)"
| "equals a (Member_function f) = Inl (Invalid_use_of_member_function f)"

fun and_also :: "compile_error + bool \<Rightarrow> compile_error + bool \<Rightarrow> compile_error + bool" where
  "and_also (Inl err) r = Inl err"
| "and_also (Inr a) (Inl err) = Inl err"
| "and_also (Inr a) (Inr b) = Inr (a \<and> b)"

definition operator_equals :: "addr \<Rightarrow> addr \<Rightarrow> 's store \<Rightarrow> compile_error + bool" where
  "operator_equals this vector s =
     and_also (and_also (equals (m_x (s this)) (Member_function ''x''))
                        (equals (m_y (s this)) (Member_function ''y'')))
              (equals (m_z (s this)) (Member_function ''z''))"

section \<open>Text output and input\<close>

text \<open>
  The two stream operators of the source pass the components, one after the other,
  to the stream operators of the scalar type:
  \<^verbatim>\<open>stream << vector.x() << ' ' << vector.y() << ' ' << vector.z()\<close> and
  \<^verbatim>\<open>stream >> vector.x() >> vector.y() >> vector.z()\<close>. The operators of the scalar
  type belong to the standard library, not to the source, and are parameters here:
  \<open>put\<close> gives the characters that writing a scalar appends to an output stream (an
  output stream is the string written so far), and \<open>scalar_in\<close> reads a scalar from
  an input stream into a target whose current value it is given, returning the stream
  and the value the target has afterwards.
\<close>

definition operator_shift_left ::
  "('s \<Rightarrow> string) \<Rightarrow> string \<Rightarrow> 's::{plus,minus,uminus,times,inverse} store \<Rightarrow> 's expr \<Rightarrow> string" where
  "operator_shift_left put stream s vector =
     stream @ put (x s vector) @ '' '' @ put (y s vector) @ '' '' @ put (z s vector)"

text \<open>
  The targets are the references \<^verbatim>\<open>vector.x()\<close>, \<^verbatim>\<open>vector.y()\<close>, \<^verbatim>\<open>vector.z()\<close> that
  the writable accessors return: each extraction writes its member in the store
  before the next one starts.
\<close>

definition operator_shift_right ::
  "('i \<Rightarrow> 's \<Rightarrow> 'i \<times> 's) \<Rightarrow> 'i \<Rightarrow> addr \<Rightarrow> 's store \<Rightarrow> 'i \<times> 's store" where
  "operator_shift_right scalar_in stream vector s =
     (case scalar_in stream (m_x (s vector)) of (stream1, vx) \<Rightarrow>
      let s1 = s(vector := (s vector)\<lparr>m_x := vx\<rparr>) in
      case scalar_in stream1 (m_y (s1 vector)) of (stream2, vy) \<Rightarrow>
      let s2 = s1(vector := (s1 vector)\<lparr>m_y := vy\<rparr>) in
      case scalar_in stream2 (m_z (s2 vector)) of (stream3, vz) \<Rightarrow>
        (stream3, s2(vector := (s2 vector)\<lparr>m_z := vz\<rparr>)))"

subsection \<open>The scalar operators of the standard library\<close>

text \<open>
  What follows describes \<^verbatim>\<open>std::istream\<close> and \<^verbatim>\<open>std::ostream\<close> on an arithmetic
  scalar, as the C++11 standard fixes them (the source needs C++11: it uses
  \<^verbatim>\<open>constexpr\<close> and \<^verbatim>\<open>noexcept\<close>). An input stream is the characters not yet read
  and its \<^verbatim>\<open>failbit\<close>; its flags are those a stream has initially (white space is
  skipped, and a failure raises no exception).

  Formatted extraction of a number (\<^verbatim>\<open>operator>>(S&)\<close>): when the stream has
  already failed, nothing is read and the target is left alone; otherwise leading
  white space is skipped, and when no character is left the stream fails and the
  target is left alone; otherwise the numeric field is converted (\<open>get\<close>, the
  \<^verbatim>\<open>num_get\<close> of the scalar type, returns the outcome and the characters after
  the field). A field that converts is stored. Every other outcome sets \<^verbatim>\<open>failbit\<close>
  and stores a value all the same: zero for a field that does not convert, the most
  positive representable value for a field too large positive, the most negative one
  for a field too large negative (\<^verbatim>\<open>std::numeric_limits<S>::max()\<close> and
  \<^verbatim>\<open>lowest()\<close>).
\<close>

definition isspace :: "char \<Rightarrow> bool" where
  "isspace ch = (ch = CHR '' '' \<or> ch = CHR 0x09 \<or> ch = CHR 0x0A \<or> ch = CHR 0x0B
                 \<or> ch = CHR 0x0C \<or> ch = CHR 0x0D)"

record istream =
  buffer :: string
  failbit :: bool

datatype 's conversion =
    Converted 's
  | Not_converted
  | Too_large_positive
  | Too_large_negative

record 's numeric_limits =
  limit_max :: 's
  limit_lowest :: 's

type_synonym 's num_get = "string \<Rightarrow> 's conversion \<times> string"

fun converts :: "'s conversion \<Rightarrow> bool" where
  "converts (Converted a) = True"
| "converts Not_converted = False"
| "converts Too_large_positive = False"
| "converts Too_large_negative = False"

fun stored :: "'s::zero numeric_limits \<Rightarrow> 's conversion \<Rightarrow> 's" where
  "stored limits (Converted a) = a"
| "stored limits Not_converted = 0"
| "stored limits Too_large_positive = limit_max limits"
| "stored limits Too_large_negative = limit_lowest limits"

definition pending :: "istream \<Rightarrow> string" where
  "pending stream = dropWhile isspace (buffer stream)"

definition num_extract ::
  "'s::zero numeric_limits \<Rightarrow> 's num_get \<Rightarrow> istream \<Rightarrow> 's \<Rightarrow> istream \<times> 's" where
  "num_extract limits get stream val =
     (if failbit stream then (stream, val)
      else if pending stream = [] then (\<lparr>buffer = [], failbit = True\<rparr>, val)
      else case get (pending stream) of
             (outcome, rest) \<Rightarrow>
               (\<lparr>buffer = rest, failbit = (\<not> converts outcome)\<rparr>, stored limits outcome))"

text \<open>
  The numeric field of a \<^verbatim>\<open>double\<close>, in decimal: an optional sign, digits with an
  optional point, and an optional exponent. A field with no digit, or with an
  exponent mark and no exponent digit, does not convert. A field whose magnitude
  reaches \<open>double_overflow\<close>, the midpoint between the largest \<^verbatim>\<open>double\<close> and the
  next power of two, where rounding to nearest leaves the range, is too large. For
  any other field the value read is the exact value of the field (the rounding to the
  nearest \<^verbatim>\<open>double\<close> is left out, as are hexadecimal fields).
\<close>

definition double_max :: real where
  "double_max = (2 ^ 53 - 1) * 2 ^ 971"

definition double_overflow :: real where
  "double_overflow = (2 ^ 54 - 1) * 2 ^ 970"

definition double_limits :: "real numeric_limits" where
  "double_limits = \<lparr>limit_max = double_max, limit_lowest = - double_max\<rparr>"

fun digit_of :: "char \<Rightarrow> nat option" where
  "digit_of ch =
     (if ch = CHR ''0'' then Some 0 else if ch = CHR ''1'' then Some 1
      else if ch = CHR ''2'' then Some 2 else if ch = CHR ''3'' then Some 3
      else if ch = CHR ''4'' then Some 4 else if ch = CHR ''5'' then Some 5
      else if ch = CHR ''6'' then Some 6 else if ch = CHR ''7'' then Some 7
      else if ch = CHR ''8'' then Some 8 else if ch = CHR ''9'' then Some 9
      else None)"

definition isdigit :: "char \<Rightarrow> bool" where
  "isdigit ch = (digit_of ch \<noteq> None)"

fun digits_value :: "nat \<Rightarrow> string \<Rightarrow> nat" where
  "digits_value acc [] = acc"
| "digits_value acc (ch # rest) =
     (case digit_of ch of Some d \<Rightarrow> digits_value (acc * 10 + d) rest | None \<Rightarrow> acc)"

fun scan_sign :: "string \<Rightarrow> bool \<times> string" where
  "scan_sign [] = (False, [])"
| "scan_sign (ch # rest) =
     (if ch = CHR ''-'' then (True, rest)
      else if ch = CHR ''+'' then (False, rest)
      else (False, ch # rest))"

fun scan_point :: "string \<Rightarrow> string \<times> string" where
  "scan_point [] = ([], [])"
| "scan_point (ch # rest) =
     (if ch = CHR ''.'' then (takeWhile isdigit rest, dropWhile isdigit rest)
      else ([], ch # rest))"

fun scan_exponent :: "string \<Rightarrow> int option \<times> string" where
  "scan_exponent [] = (Some 0, [])"
| "scan_exponent (ch # rest) =
     (if ch = CHR ''e'' \<or> ch = CHR ''E'' then
        (case scan_sign rest of (neg, field) \<Rightarrow>
           if takeWhile isdigit field = [] then (None, field)
           else (Some ((if neg then - 1 else 1) * int (digits_value 0 (takeWhile isdigit field))),
                 dropWhile isdigit field))
      else (Some 0, ch # rest))"

definition scale10 :: "real \<Rightarrow> int \<Rightarrow> real" where
  "scale10 a k = (if 0 \<le> k then a * 10 ^ nat k else a / 10 ^ nat (- k))"

definition get_decimal :: "real num_get" where
  "get_decimal field =
     (case scan_sign field of (neg, field1) \<Rightarrow>
      let whole = takeWhile isdigit field1 in
      case scan_point (dropWhile isdigit field1) of (fraction, field2) \<Rightarrow>
        if whole = [] \<and> fraction = [] then (Not_converted, field2)
        else case scan_exponent field2 of
               (None, field3) \<Rightarrow> (Not_converted, field3)
             | (Some e, field3) \<Rightarrow>
                 let magnitude = scale10 (real (digits_value 0 (whole @ fraction)))
                                   (e - int (length fraction))
                 in if double_overflow \<le> magnitude
                    then (if neg then Too_large_negative else Too_large_positive, field3)
                    else (Converted (if neg then - magnitude else magnitude), field3))"

text \<open>
  Formatted output of a floating-point scalar on a stream in its initial state
  (\<^verbatim>\<open>operator<<(double)\<close>: the conversion \<^verbatim>\<open>%g\<close> with the default precision 6). The
  value is rounded to six significant digits, \<open>significant\<close> giving these digits as a
  number from 100000 to 999999 and the decimal exponent of the first one. An exponent
  from -4 to 5 gives the fixed notation, any other the scientific one with an exponent
  of at least two digits; zeros at the end of the fraction are dropped, and the point
  with them when no fraction is left.
\<close>

definition digit_char :: "nat \<Rightarrow> char" where
  "digit_char d = ''0123456789'' ! d"

function decimal :: "nat \<Rightarrow> string" where
  "decimal n = (if n < 10 then [digit_char n] else decimal (n div 10) @ [digit_char (n mod 10)])"
  by pat_completeness auto
termination
  by (relation "measure id") auto

declare decimal.simps [simp del]

definition round_half_even :: "real \<Rightarrow> int" where
  "round_half_even r =
     (if r - of_int \<lfloor>r\<rfloor> < 1 / 2 then \<lfloor>r\<rfloor>
      else if 1 / 2 < r - of_int \<lfloor>r\<rfloor> then \<lfloor>r\<rfloor> + 1
      else if even \<lfloor>r\<rfloor> then \<lfloor>r\<rfloor> else \<lfloor>r\<rfloor> + 1)"

definition significant :: "real \<Rightarrow> int \<times> int" where
  "significant a =
     (let e = \<lfloor>log 10 a\<rfloor>; m = round_half_even (scale10 a (5 - e))
      in if m = 1000000 then (100000, e + 1) else (m, e))"

definition strip_zeros :: "string \<Rightarrow> string" where
  "strip_zeros ds = rev (dropWhile (\<lambda>ch. ch = CHR ''0'') (rev ds))"

definition with_point :: "string \<Rightarrow> string \<Rightarrow> string" where
  "with_point whole fraction =
     (if strip_zeros fraction = [] then whole else whole @ ''.'' @ strip_zeros fraction)"

definition fixed_notation :: "string \<Rightarrow> int \<Rightarrow> string" where
  "fixed_notation ds e =
     (if 0 \<le> e then with_point (take (nat e + 1) ds) (drop (nat e + 1) ds)
      else with_point ''0'' (replicate (nat (- e - 1)) (CHR ''0'') @ ds))"

definition exponent_part :: "int \<Rightarrow> string" where
  "exponent_part e =
     ''e'' @ (if e < 0 then ''-'' else ''+'')
       @ (if \<bar>e\<bar> < 10 then ''0'' else []) @ decimal (nat \<bar>e\<bar>)"

definition scientific_notation :: "string \<Rightarrow> int \<Rightarrow> string" where
  "scientific_notation ds e = with_point (take 1 ds) (drop 1 ds) @ exponent_part e"

definition put_g6 :: "real \<Rightarrow> string" where
  "put_g6 a =
     (if a = 0 then ''0''
      else case significant \<bar>a\<bar> of (m, e) \<Rightarrow>
        (if a < 0 then ''-'' else []) @
        (if - 4 \<le> e \<and> e < 6 then fixed_notation (decimal (nat m)) e
         else scientific_notation (decimal (nat m)) e))"

text \<open>
  A scalar reads back when its text is not empty, does not start with white space,
  and, followed by white space or by the end of the input, converts to the scalar
  again and leaves what follows.
\<close>

definition reads_back :: "('s \<Rightarrow> string) \<Rightarrow> 's num_get \<Rightarrow> 's \<Rightarrow> bool" where
  "reads_back put get a =
     (put a \<noteq> [] \<and> \<not> isspace (hd (put a))
      \<and> (\<forall>rest. rest = [] \<or> isspace (hd rest) \<longrightarrow> get (put a @ rest) = (Converted a, rest)))"

section \<open>Stores of the scenarios\<close>

text \<open>\<^verbatim>\<open>Vector3D(1,2,3)\<close> at address 0 and \<^verbatim>\<open>Vector3D(4,5,6)\<close> at address 1.\<close>

definition scenario1 :: "'s::{ring_1,inverse} store" where
  "scenario1 = (\<lambda>_. Vector3D_default)(0 := Vector3D_xyz 1 2 3, 1 := Vector3D_xyz 4 5 6)"

text \<open>\<^verbatim>\<open>Vector3D(3,4,0)\<close> at address 0.\<close>

definition scenario3 :: "real store" where
  "scenario3 = (\<lambda>_. Vector3D_default)(0 := Vector3D_xyz 3 4 0)"

text \<open>
  A scope in which a concrete vector, the one at address 1, was declared under the
  name \<^verbatim>\<open>v\<close> before the header was included.
\<close>

definition stale_scope :: "'s scope" where
  "stale_scope = Map.empty(''v'' \<mapsto> Vec 1)"

text \<open>The unit vectors \<^verbatim>\<open>Vector3D(1,0,0)\<close> at address 0 and \<^verbatim>\<open>Vector3D(0,1,0)\<close> at 1.\<close>

definition unit_store :: "'s::{ring_1,inverse} store" where
  "unit_store = (\<lambda>_. Vector3D_default)(0 := Vector3D_xyz 1 0 0, 1 := Vector3D_xyz 0 1 0)"

text \<open>\<^verbatim>\<open>Vector3D(7,8,9)\<close> at address 0, the vector read into.\<close>

definition store_789 :: "real store" where
  "store_789 = (\<lambda>_. Vector3D_default)(0 := Vector3D_xyz 7 8 9)"

text \<open>\<^verbatim>\<open>Vector3D(1234567,0,0)\<close> at address 0; address 1 holds a fresh vector.\<close>

definition store_1234567 :: "real store" where
  "store_1234567 = (\<lambda>_. Vector3D_default)(0 := Vector3D_xyz 1234567 0 0)"

text \<open>An input stream that has not failed, holding the given characters.\<close>

definition input :: "string \<Rightarrow> istream" where
  "input str = \<lparr>buffer = str, failbit = False\<rparr>"

section \<open>Evaluation of expressions\<close>

lemma component_log_value: "fst (component_log s e c) = component s e c"
  by (induction s e c rule: component.induct) (auto split: prod.splits)

lemma Vector3D_expr_log_value: "fst (Vector3D_expr_log s e) = Vector3D_expr s e"
  using component_log_value [of s e X] component_log_value [of s e Y]
    component_log_value [of s e Z]
  by (auto simp add: Vector3D_expr_log_def Vector3D_expr_def x_def y_def z_def
      split: prod.splits)

text \<open>
  Claim C1. Constructing a concrete vector from the chained expression
  \<^verbatim>\<open>a + b * 2.0 - c\<close> reads the expression's x, y and z exactly once each and stores
  the eagerly computed values \<^verbatim>\<open>a.x + b.x*2.0 - c.x\<close>, \<^verbatim>\<open>a.y + b.y*2.0 - c.y\<close>,
  \<^verbatim>\<open>a.z + b.z*2.0 - c.z\<close>, for every choice of the three vectors. The last
  conjunct lists the calls that reach the three operands: each component of each
  operand is read once.
\<close>

theorem chained_expression_construction:
  fixes s :: "'s::{numeral,minus,uminus,times,inverse} store"
  shows "(let e = operator_minus (operator_plus (Vec a) (operator_times (Vec b) 2)) (Vec c);
        built = Vector3D_expr_log s e
    in fst built = Vector3D_xyz (m_x (s a) + m_x (s b) * 2 - m_x (s c))
                                (m_y (s a) + m_y (s b) * 2 - m_y (s c))
                                (m_z (s a) + m_z (s b) * 2 - m_z (s c))
     \<and> Vector3D_expr s e = fst built
     \<and> count_list (snd built) (e, X) = 1
     \<and> count_list (snd built) (e, Y) = 1
     \<and> count_list (snd built) (e, Z) = 1
     \<and> filter on_vector (snd built)
         = [(Vec a, X), (Vec b, X), (Vec c, X),
            (Vec a, Y), (Vec b, Y), (Vec c, Y),
            (Vec a, Z), (Vec b, Z), (Vec c, Z)])"
  by (simp add: Let_def Vector3D_expr_log_def Vector3D_expr_def Vector3D_xyz_def
      operator_minus_def operator_plus_def operator_times_def x_def y_def z_def)

text \<open>
  Claim C2. For \<^verbatim>\<open>Vector3D(1,2,3)\<close> and \<^verbatim>\<open>Vector3D(4,5,6)\<close> the sum evaluates to
  (5,7,9), the difference to (-3,-3,-3), the dot product to 32 and the cross product
  to (-3,6,-3).
\<close>

theorem scenario_sum_diff_dot_cross:
  "Vector3D_expr (scenario1 :: 's::{ring_1,inverse} store) (operator_plus (Vec 0) (Vec 1))
     = Vector3D_xyz 5 7 9
   \<and> Vector3D_expr (scenario1 :: 's store) (operator_minus (Vec 0) (Vec 1))
     = Vector3D_xyz (- 3) (- 3) (- 3)
   \<and> dot (scenario1 :: 's store) (Vec 0) (Vec 1) = 32
   \<and> Vector3D_expr (scenario1 :: 's store) (cross (Vec 0) (Vec 1))
     = Vector3D_xyz (- 3) 6 (- 3)"
  by (simp add: scenario1_def Vector3D_expr_def Vector3D_xyz_def operator_plus_def
      operator_minus_def cross_def dot_def x_def y_def z_def)

section \<open>Negation\<close>

text \<open>
  The accessors of \<^verbatim>\<open>Vector3D_CrossExpr\<close> are written so that exchanging the
  operands negates each component, without commuting a product.
\<close>

lemma CrossExpr_anticommutative:
  fixes s :: "'s::{ring,inverse} store"
  shows "component s (Vector3D_CrossExpr a b) c = - component s (Vector3D_CrossExpr b a) c"
  by (cases c) simp_all

text \<open>
  A node of \<^verbatim>\<open>Vector3D_NegateExpr\<close> reads the storage its member refers to, and
  nothing of the operand it was built from.
\<close>

lemma Vector3D_NegateExpr_reads_storage:
  "Vector3D_NegateExpr_init temp after (Vec p) s = Inr (Vector3D_NegateExpr temp, s(temp := after))"
  "Vector3D_expr (s(temp := after)) (Vector3D_NegateExpr temp)
     = Vector3D_xyz (- m_x after) (- m_y after) (- m_z after)"
  by (simp_all add: Vector3D_NegateExpr_init_def Vector3D_expr_def Vector3D_xyz_def
      x_def y_def z_def)

lemma Vector3D_NegateExpr_init_rejected:
  "class_of vec \<noteq> Vector3D_class \<Longrightarrow>
   Vector3D_NegateExpr_init temp after vec s = Inl Invalid_initialization_of_reference"
  by (simp add: Vector3D_NegateExpr_init_def)

lemma operator_negate_rejected:
  assumes "class_of vector \<noteq> Vector3D_class"
  shows "isl (operator_negate scope temp after vector s)"
proof (cases "scope ''v''")
  case None
  then show ?thesis by (simp add: operator_negate_def)
next
  case (Some v)
  show ?thesis
  proof (cases "class_of v = class_of vector")
    case True
    with assms have "class_of v \<noteq> Vector3D_class" by simp
    then show ?thesis
      using Some True by (simp add: operator_negate_def Vector3D_NegateExpr_init_rejected)
  next
    case False
    then show ?thesis using Some by (simp add: operator_negate_def)
  qed
qed

text \<open>
  Claim C3. For every vector expression \<open>v\<close>, \<^verbatim>\<open>-v\<close> has the components
  \<^verbatim>\<open>-(v.x())\<close>, \<^verbatim>\<open>-(v.y())\<close>, \<^verbatim>\<open>-(v.z())\<close> of the operand passed in. The operator of
  the source does not use its operand. With the header alone it is rejected, whatever
  the operand. Where a concrete vector named \<^verbatim>\<open>v\<close> is in scope, minus applied to a
  concrete vector is accepted and returns a node whose member refers to a temporary
  that is gone: its components are the negated contents of that storage, whatever
  they have become, and depend neither on the operand nor on \<^verbatim>\<open>v\<close>. Applied to an
  operand of another class, here a sum, it is rejected again.
\<close>

theorem operator_negate_ignores_operand:
  "operator_negate Map.empty temp after vector s = Inl (Undeclared_identifier ''v'')
   \<and> operator_negate stale_scope temp after (Vec 0) s
       = Inr (Vector3D_NegateExpr temp, s(temp := after))
   \<and> Vector3D_expr (s(temp := after)) (Vector3D_NegateExpr temp)
       = Vector3D_xyz (- m_x after) (- m_y after) (- m_z after)
   \<and> operator_negate stale_scope temp after (operator_plus (Vec 0) (Vec 0)) s
       = Inl Invalid_initialization_of_reference"
  by (simp add: operator_negate_def stale_scope_def Vector3D_NegateExpr_init_def
      operator_plus_def Vector3D_expr_def Vector3D_xyz_def x_def y_def z_def)

text \<open>
  Claim C7. For all vectors \<open>a\<close> and \<open>b\<close>, every component of \<^verbatim>\<open>a.cross(b)\<close> equals the
  corresponding component of \<^verbatim>\<open>-(b.cross(a))\<close>. The right-hand side goes through the
  unary minus of the source. With the header alone that is rejected for the undeclared
  \<^verbatim>\<open>v\<close>; whatever is in scope, it is rejected for a cross product, and no expression
  \<^verbatim>\<open>-(b.cross(a))\<close> exists to compare with. With the unit vectors (1,0,0) and (0,1,0),
  \<^verbatim>\<open>a.cross(b)\<close> is (0,0,1).
\<close>

theorem negated_cross_through_operator:
  "operator_negate Map.empty temp after (cross b a) s = Inl (Undeclared_identifier ''v'')
   \<and> isl (operator_negate scope temp after (cross b a) s)
   \<and> Vector3D_expr (unit_store :: 's::{ring_1,inverse} store) (cross (Vec 0) (Vec 1))
       = Vector3D_xyz 0 0 1"
proof -
  have "class_of (cross b a) \<noteq> Vector3D_class" by (simp add: cross_def)
  then have "isl (operator_negate scope temp after (cross b a) s)"
    by (rule operator_negate_rejected)
  then show ?thesis
    by (simp add: operator_negate_def unit_store_def Vector3D_expr_def Vector3D_xyz_def
        cross_def x_def y_def z_def)
qed

section \<open>Equality\<close>

text \<open>
  Claim C4. For concrete vectors \<open>v\<close> and \<open>w\<close>, \<^verbatim>\<open>v == w\<close> is true exactly when the
  three components are equal. The operator of the source compares each member with an
  accessor that it does not call, so it yields no truth value for any pair of
  vectors, equal or not.
\<close>

theorem operator_equals_ill_formed:
  "operator_equals v w s = Inl (Invalid_use_of_member_function ''x'')"
  by (simp add: operator_equals_def)

section \<open>Compound addition\<close>

text \<open>
  Claim C9. For every concrete vector \<open>v\<close>, \<^verbatim>\<open>v += v\<close> ends with \<open>v\<close> equal to
  (2x, 2y, 2z) for the original components x, y, z: each statement reads the
  component of the aliased right-hand side that it is about to write, and no other.
\<close>

theorem self_aliased_compound_addition:
  fixes s :: "'s::{semiring_numeral,minus,uminus,inverse} store"
  shows "operator_plus_assign v (Vec v) s
     = s(v := Vector3D_xyz (2 * m_x (s v)) (2 * m_y (s v)) (2 * m_z (s v)))"
  by (cases "s v")
    (simp add: operator_plus_assign_def Let_def x_def y_def z_def Vector3D_xyz_def mult_2)

text \<open>
  Aliasing is visible in the store: \<^verbatim>\<open>v += v.cross(w)\<close> for \<open>v\<close> = (1,1,1) and
  \<open>w\<close> = (1,2,3) reads members of \<open>v\<close> that earlier statements have written, and
  ends with (2,-4,9), where \<open>v\<close> plus the cross product (1,-2,1) is (2,-1,2).
\<close>

lemma aliased_cross_addition:
  fixes s :: "'s::{ring_1,inverse} store"
  assumes "s 0 = Vector3D_xyz 1 1 1" and "s 1 = Vector3D_xyz 1 2 3"
  shows "operator_plus_assign 0 (cross (Vec 0) (Vec 1)) s 0 = Vector3D_xyz 2 (- 4) 9"
    and "Vector3D_expr s (operator_plus (Vec 0) (cross (Vec 0) (Vec 1))) = Vector3D_xyz 2 (- 1) 2"
  using assms
  by (simp_all add: operator_plus_assign_def Let_def cross_def operator_plus_def
      Vector3D_expr_def Vector3D_xyz_def x_def y_def z_def)

section \<open>Norm and normalisation\<close>

lemma squaredNorm_squares:
  fixes s :: "'s::{comm_semiring_1,minus,uminus,inverse} store"
  shows "squaredNorm s e = (x s e)\<^sup>2 + (y s e)\<^sup>2 + (z s e)\<^sup>2"
  by (simp add: squaredNorm_def dot_def power2_eq_square)

lemma squaredNorm_nonneg: "0 \<le> squaredNorm s (e :: real expr)"
  by (simp add: squaredNorm_squares)

lemma norm_3d_value: "norm_3d s e = Inr (sqrt (squaredNorm s e))"
  using squaredNorm_nonneg [of s e] by (simp add: norm_3d_def std_sqrt_def)

text \<open>
  Claim C6. For every vector expression over a real scalar type, \<^verbatim>\<open>squaredNorm()\<close> is
  a sum of three squares and so not negative; the square root inside \<^verbatim>\<open>norm()\<close>
  never receives a negative argument, and \<^verbatim>\<open>norm()\<close> never signals a domain error.
\<close>

theorem norm_never_domain_error:
  "squaredNorm s e = (x s e)\<^sup>2 + (y s e)\<^sup>2 + (z s e)\<^sup>2
   \<and> 0 \<le> squaredNorm s (e :: real expr)
   \<and> \<not> squaredNorm s e < 0
   \<and> norm_3d s e \<noteq> Inl Domain_error
   \<and> norm_3d s e = Inr (sqrt (squaredNorm s e))"
  using squaredNorm_nonneg [of s e]
  by (simp add: norm_3d_value squaredNorm_squares [symmetric])

text \<open>
  Claim C5. For every concrete vector \<open>v\<close> whose norm is not zero, \<^verbatim>\<open>v.normalized()\<close>
  returns a new vector whose components are those of \<open>v\<close>, each divided by
  \<^verbatim>\<open>v.norm()\<close>, which is the vector \<^verbatim>\<open>v / v.norm()\<close>; the call leaves \<open>v\<close> unchanged.
\<close>

theorem normalized_divides_by_norm:
  assumes "norm_3d s (Vec v) = Inr n" and "n \<noteq> 0"
  shows "normalized v s =
           (Inr (Vector3D_xyz (m_x (s v) / n) (m_y (s v) / n) (m_z (s v) / n)), s)
       \<and> fst (normalized v s) = Inr (Vector3D_expr s (operator_divide (Vec v) n))
       \<and> snd (normalized v s) v = s v"
  using assms
  by (simp add: normalized_def Vector3D_expr_def Vector3D_xyz_def operator_divide_def
      x_def y_def z_def)

lemma scenario3_norm: "norm_3d scenario3 (Vec 0) = Inr 5"
proof -
  have "sqrt 25 = 5" by (rule real_sqrt_unique) simp_all
  then show ?thesis
    by (simp add: norm_3d_value squaredNorm_def dot_def x_def y_def z_def scenario3_def
        Vector3D_xyz_def)
qed

text \<open>The vector (3,4,0) has norm 5 and normalises to (3/5, 4/5, 0).\<close>

theorem normalized_divides_by_norm_witness:
  "norm_3d scenario3 (Vec 0) = Inr 5 \<and> (5::real) \<noteq> 0
   \<and> normalized 0 scenario3 = (Inr (Vector3D_xyz (3 / 5) (4 / 5) 0), scenario3)
   \<and> fst (normalized 0 scenario3) = Inr (Vector3D_expr scenario3 (operator_divide (Vec 0) 5))
   \<and> snd (normalized 0 scenario3) 0 = scenario3 0"
proof -
  have n: "norm_3d scenario3 (Vec 0) = Inr 5" by (rule scenario3_norm)
  have nz: "(5::real) \<noteq> 0" by simp
  have v: "m_x (scenario3 0) = 3" "m_y (scenario3 0) = 4" "m_z (scenario3 0) = 0"
    by (simp_all add: scenario3_def Vector3D_xyz_def)
  from normalized_divides_by_norm [OF n nz, unfolded v div_0] n nz show ?thesis
    by blast
qed

section \<open>Text input\<close>

lemma num_extract_token:
  "\<not> failbit stream \<Longrightarrow> pending stream \<noteq> [] \<Longrightarrow> get (pending stream) = (Converted a, rest) \<Longrightarrow>
   num_extract limits get stream val = (\<lparr>buffer = rest, failbit = False\<rparr>, a)"
  by (simp add: num_extract_def)

lemma num_extract_cases:
  "num_extract limits get stream val =
     (if failbit stream then (stream, val)
      else if pending stream = [] then (\<lparr>buffer = [], failbit = True\<rparr>, val)
      else (\<lparr>buffer = snd (get (pending stream)),
             failbit = (\<not> converts (fst (get (pending stream))))\<rparr>,
            stored limits (fst (get (pending stream)))))"
  by (auto simp add: num_extract_def split: prod.splits)

text \<open>What a conversion stores when it fails.\<close>

lemma stored_on_failure:
  "\<not> converts outcome \<Longrightarrow>
   stored limits outcome = 0 \<and> outcome = Not_converted
   \<or> stored limits outcome = limit_max limits \<and> outcome = Too_large_positive
   \<or> stored limits outcome = limit_lowest limits \<and> outcome = Too_large_negative"
  by (cases outcome) simp_all

lemma converts_iff: "converts outcome \<longleftrightarrow> outcome = Converted (stored limits outcome)"
  by (cases outcome) simp_all

lemma operator_shift_right_steps:
  "operator_shift_right scalar_in stream p s =
     (fst (scalar_in (fst (scalar_in (fst (scalar_in stream (m_x (s p)))) (m_y (s p)))) (m_z (s p))),
      s(p := Vector3D_xyz (snd (scalar_in stream (m_x (s p))))
                          (snd (scalar_in (fst (scalar_in stream (m_x (s p)))) (m_y (s p))))
                          (snd (scalar_in (fst (scalar_in (fst (scalar_in stream (m_x (s p)))) (m_y (s p)))) (m_z (s p))))))"
  by (cases "s p") (simp add: operator_shift_right_def Let_def Vector3D_xyz_def split: prod.splits)

text \<open>
  Claim C10, as the code has it. Textual input into a concrete vector is not atomic:
  the three tokens are extracted and assigned in the order x, y, z, each through the
  writable reference to its member. When the source fails after k successful tokens
  (k = 0, 1, 2), the first k components hold the values of the tokens read and the
  components after the one being read keep their previous values. The component
  being read keeps its previous value when the input is exhausted or the stream had
  failed before; otherwise its token has not converted, and it holds what \<open>stored\<close>
  gives for the outcome: zero for a malformed token, the most positive or the most
  negative representable value for a token out of range.
\<close>

theorem input_not_atomic:
  fixes get :: "'s::zero num_get"
  shows "(let old = s p;
        r1 = num_extract limits get stream (m_x old);
        r2 = num_extract limits get (fst r1) (m_y old);
        r3 = num_extract limits get (fst r2) (m_z old);
        new = snd (operator_shift_right (num_extract limits get) stream p s) p
    in operator_shift_right (num_extract limits get) stream p s
         = (fst r3, s(p := Vector3D_xyz (snd r1) (snd r2) (snd r3)))
     \<and> (failbit (fst r1) \<longrightarrow>
          (if failbit stream \<or> pending stream = [] then m_x new = m_x old
           else \<not> converts (fst (get (pending stream)))
              \<and> m_x new = stored limits (fst (get (pending stream))))
          \<and> m_y new = m_y old \<and> m_z new = m_z old)
     \<and> (\<not> failbit (fst r1) \<and> failbit (fst r2) \<longrightarrow>
          fst (get (pending stream)) = Converted (m_x new)
          \<and> (if pending (fst r1) = [] then m_y new = m_y old
             else \<not> converts (fst (get (pending (fst r1))))
                \<and> m_y new = stored limits (fst (get (pending (fst r1)))))
          \<and> m_z new = m_z old)
     \<and> (\<not> failbit (fst r2) \<and> failbit (fst r3) \<longrightarrow>
          fst (get (pending stream)) = Converted (m_x new)
          \<and> fst (get (pending (fst r1))) = Converted (m_y new)
          \<and> (if pending (fst r2) = [] then m_z new = m_z old
             else \<not> converts (fst (get (pending (fst r2))))
                \<and> m_z new = stored limits (fst (get (pending (fst r2)))))))"
  unfolding Let_def operator_shift_right_steps
  by (auto simp add: num_extract_cases Vector3D_xyz_def converts_iff [symmetric]
      split: if_splits)

lemma double_overflow_large: "10 ^ 300 < double_overflow"
  by (simp add: double_overflow_def)

lemma in_range: "a \<le> 10000000000 \<Longrightarrow> double_overflow \<le> a \<longleftrightarrow> False"
proof -
  assume "a \<le> 10000000000"
  moreover have "(10000000000::real) < 10 ^ 300" by simp
  ultimately show ?thesis using double_overflow_large by simp
qed

lemmas scan_defs = num_extract_def pending_def isspace_def input_def get_decimal_def
  isdigit_def scale10_def in_range

lemma m_store_789: "m_x (store_789 0) = 7" "m_y (store_789 0) = 8" "m_z (store_789 0) = 9"
  by (simp_all add: store_789_def Vector3D_xyz_def)

lemma extract_1:
  "num_extract limits get_decimal (input ''1'') val = (\<lparr>buffer = [], failbit = False\<rparr>, 1)"
  by (simp add: scan_defs)

lemma extract_end:
  "num_extract limits get_decimal \<lparr>buffer = [], failbit = False\<rparr> val
     = (\<lparr>buffer = [], failbit = True\<rparr>, val)"
  by (simp add: scan_defs)

lemma extract_1_2_hash:
  "num_extract limits get_decimal (input ''1 2 #'') val = (\<lparr>buffer = '' 2 #'', failbit = False\<rparr>, 1)"
  "num_extract limits get_decimal \<lparr>buffer = '' 2 #'', failbit = False\<rparr> val
     = (\<lparr>buffer = '' #'', failbit = False\<rparr>, 2)"
  "num_extract limits get_decimal \<lparr>buffer = '' #'', failbit = False\<rparr> val
     = (\<lparr>buffer = ''#'', failbit = True\<rparr>, 0)"
  by (simp_all add: scan_defs)

lemma extract_1e400:
  "num_extract double_limits get_decimal (input ''1e400 2 3'') val
     = (\<lparr>buffer = '' 2 3'', failbit = True\<rparr>, double_max)"
  "num_extract double_limits get_decimal (input ''-1e400 2 3'') val
     = (\<lparr>buffer = '' 2 3'', failbit = True\<rparr>, - double_max)"
  "num_extract limits get_decimal \<lparr>buffer = '' 2 3'', failbit = True\<rparr> val
     = (\<lparr>buffer = '' 2 3'', failbit = True\<rparr>, val)"
  by (simp_all add: scan_defs double_limits_def double_overflow_def)

text \<open>
  Into the vector (7,8,9): the empty input fails at once and leaves (7,8,9); the
  input \<^verbatim>\<open>1\<close> fails after one token and leaves (1,8,9); the input \<^verbatim>\<open>1 2 #\<close> fails
  after two tokens, on a malformed one, and leaves (1,2,0); the input \<^verbatim>\<open>1e400 2 3\<close>
  fails on its first token, which is out of range, and leaves the largest \<^verbatim>\<open>double\<close>
  with 8 and 9.
\<close>

theorem input_not_atomic_witness:
  "(failbit (fst (num_extract double_limits get_decimal (input []) (m_x (store_789 0))))
    \<and> snd (operator_shift_right (num_extract double_limits get_decimal) (input []) 0 store_789) 0
        = Vector3D_xyz 7 8 9)
   \<and> (\<not> failbit (fst (num_extract double_limits get_decimal (input ''1'') (m_x (store_789 0))))
    \<and> failbit (fst (num_extract double_limits get_decimal
          (fst (num_extract double_limits get_decimal (input ''1'') (m_x (store_789 0))))
          (m_y (store_789 0))))
    \<and> snd (operator_shift_right (num_extract double_limits get_decimal) (input ''1'') 0 store_789) 0
        = Vector3D_xyz 1 8 9)
   \<and> (\<not> failbit (fst (num_extract double_limits get_decimal
          (fst (num_extract double_limits get_decimal (input ''1 2 #'') (m_x (store_789 0))))
          (m_y (store_789 0))))
    \<and> failbit (fst (num_extract double_limits get_decimal
          (fst (num_extract double_limits get_decimal
            (fst (num_extract double_limits get_decimal (input ''1 2 #'') (m_x (store_789 0))))
            (m_y (store_789 0)))) (m_z (store_789 0))))
    \<and> snd (operator_shift_right (num_extract double_limits get_decimal) (input ''1 2 #'') 0
          store_789) 0
        = Vector3D_xyz 1 2 0)
   \<and> (failbit (fst (num_extract double_limits get_decimal (input ''1e400 2 3'')
          (m_x (store_789 0))))
    \<and> snd (operator_shift_right (num_extract double_limits get_decimal) (input ''1e400 2 3'') 0
          store_789) 0
        = Vector3D_xyz double_max 8 9)"
  using
    input_not_atomic [where get = get_decimal and limits = double_limits
      and stream = "input []" and s = store_789 and p = 0]
    input_not_atomic [where get = get_decimal and limits = double_limits
      and stream = "input ''1''" and s = store_789 and p = 0]
    input_not_atomic [where get = get_decimal and limits = double_limits
      and stream = "input ''1 2 #''" and s = store_789 and p = 0]
    input_not_atomic [where get = get_decimal and limits = double_limits
      and stream = "input ''1e400 2 3''" and s = store_789 and p = 0]
  unfolding Let_def m_store_789 extract_1 extract_1_2_hash extract_1e400 fst_conv snd_conv
    extract_end
  by (simp add: scan_defs)

lemma extract_1_hash_3:
  "num_extract limits get_decimal (input ''1 # 3'') val = (\<lparr>buffer = '' # 3'', failbit = False\<rparr>, 1)"
  "num_extract limits get_decimal \<lparr>buffer = '' # 3'', failbit = False\<rparr> val
     = (\<lparr>buffer = ''# 3'', failbit = True\<rparr>, 0)"
  "num_extract limits get_decimal \<lparr>buffer = ''# 3'', failbit = True\<rparr> val
     = (\<lparr>buffer = ''# 3'', failbit = True\<rparr>, val)"
  by (simp_all add: scan_defs)

text \<open>
  Claim C10 as stated fails where the token after the successful ones is malformed:
  reading \<^verbatim>\<open>1 # 3\<close> into the vector (7,8,9) fails after one successful token and
  leaves (1,0,9). The second component has not kept its previous value 8.
\<close>

theorem malformed_token_zeroes_component:
  "\<not> failbit (fst (num_extract double_limits get_decimal (input ''1 # 3'') (m_x (store_789 0))))
   \<and> failbit (fst (num_extract double_limits get_decimal
         (fst (num_extract double_limits get_decimal (input ''1 # 3'') (m_x (store_789 0))))
         (m_y (store_789 0))))
   \<and> store_789 0 = Vector3D_xyz 7 8 9
   \<and> snd (operator_shift_right (num_extract double_limits get_decimal) (input ''1 # 3'') 0
         store_789) 0
       = Vector3D_xyz 1 0 9
   \<and> m_y (snd (operator_shift_right (num_extract double_limits get_decimal) (input ''1 # 3'') 0
         store_789) 0)
       \<noteq> m_y (store_789 0)"
  unfolding operator_shift_right_steps m_store_789 extract_1_hash_3 fst_conv snd_conv
  by (simp add: store_789_def Vector3D_xyz_def)

section \<open>Text output and the round trip\<close>

lemma pending_text:
  "str \<noteq> [] \<Longrightarrow> \<not> isspace (hd str) \<Longrightarrow>
   pending \<lparr>buffer = str @ rest, failbit = b\<rparr> = str @ rest"
  by (cases str) (simp_all add: pending_def)

lemma pending_space:
  "pending \<lparr>buffer = CHR '' '' # str, failbit = b\<rparr> = pending \<lparr>buffer = str, failbit = b\<rparr>"
  by (simp add: pending_def isspace_def)

lemma num_extract_reads_back:
  assumes "reads_back put get a" and "rest = [] \<or> isspace (hd rest)"
  shows "num_extract limits get \<lparr>buffer = put a @ rest, failbit = False\<rparr> val
         = (\<lparr>buffer = rest, failbit = False\<rparr>, a)"
proof -
  from assms have nonempty: "put a \<noteq> []" "\<not> isspace (hd (put a))"
    and again: "get (put a @ rest) = (Converted a, rest)"
    by (auto simp add: reads_back_def)
  have p: "pending \<lparr>buffer = put a @ rest, failbit = False\<rparr> = put a @ rest"
    using nonempty by (rule pending_text)
  show ?thesis
    by (rule num_extract_token [where rest = rest, THEN trans]) (simp_all add: p again nonempty)
qed

lemma num_extract_after_space:
  assumes "reads_back put get a" and "rest = [] \<or> isspace (hd rest)"
  shows "num_extract limits get \<lparr>buffer = CHR '' '' # put a @ rest, failbit = False\<rparr> val
         = (\<lparr>buffer = rest, failbit = False\<rparr>, a)"
proof -
  have "num_extract limits get \<lparr>buffer = CHR '' '' # put a @ rest, failbit = False\<rparr> val
      = num_extract limits get \<lparr>buffer = put a @ rest, failbit = False\<rparr> val"
    by (simp add: num_extract_def pending_space)
  then show ?thesis by (simp only: num_extract_reads_back [OF assms])
qed

text \<open>
  Claim C8, as the code has it. Writing a concrete vector emits the texts of x, y and
  z, in that order, separated by single spaces, with no separator after z. Reading
  that text back into a concrete vector of the same scalar type, at any address \<open>w\<close>
  of any store, consumes it all without failure and leaves there a vector equal to
  the original, provided each of the three components reads back.
\<close>

theorem text_round_trip:
  fixes s :: "'s::{zero,plus,minus,uminus,times,inverse} store"
  assumes "reads_back put get (m_x (s v))"
    and "reads_back put get (m_y (s v))"
    and "reads_back put get (m_z (s v))"
  shows "operator_shift_left put [] s (Vec v)
           = put (m_x (s v)) @ '' '' @ put (m_y (s v)) @ '' '' @ put (m_z (s v))
       \<and> operator_shift_right (num_extract limits get)
           (input (operator_shift_left put [] s (Vec v))) w s'
           = (\<lparr>buffer = [], failbit = False\<rparr>, s'(w := s v))"
proof -
  have out: "operator_shift_left put [] s (Vec v)
      = put (m_x (s v)) @ (CHR '' '' # put (m_y (s v)) @ (CHR '' '' # put (m_z (s v)) @ []))"
    by (simp add: operator_shift_left_def x_def y_def z_def)
  have r1: "num_extract limits get \<lparr>buffer = operator_shift_left put [] s (Vec v), failbit = False\<rparr> val
      = (\<lparr>buffer = CHR '' '' # put (m_y (s v)) @ (CHR '' '' # put (m_z (s v)) @ []), failbit = False\<rparr>,
         m_x (s v))" for val
    unfolding out by (rule num_extract_reads_back [OF assms(1)]) (simp add: isspace_def)
  have r2: "num_extract limits get
       \<lparr>buffer = CHR '' '' # put (m_y (s v)) @ (CHR '' '' # put (m_z (s v)) @ []), failbit = False\<rparr> val
      = (\<lparr>buffer = CHR '' '' # put (m_z (s v)) @ [], failbit = False\<rparr>, m_y (s v))" for val
    by (rule num_extract_after_space [OF assms(2)]) (simp add: isspace_def)
  have r3: "num_extract limits get \<lparr>buffer = CHR '' '' # put (m_z (s v)) @ [], failbit = False\<rparr> val
      = (\<lparr>buffer = [], failbit = False\<rparr>, m_z (s v))" for val
    by (rule num_extract_after_space [OF assms(3)]) simp
  have same: "Vector3D_xyz (m_x (s v)) (m_y (s v)) (m_z (s v)) = s v"
    by (cases "s v") (simp add: Vector3D_xyz_def)
  have "operator_shift_right (num_extract limits get)
           (input (operator_shift_left put [] s (Vec v))) w s'
           = (\<lparr>buffer = [], failbit = False\<rparr>, s'(w := s v))"
    unfolding operator_shift_right_steps input_def r1 fst_conv snd_conv r2 r3 same ..
  with out show ?thesis by simp
qed

lemma isspace_not_digit: "isspace ch \<Longrightarrow> \<not> isdigit ch"
  by (auto simp add: isspace_def isdigit_def)

lemma get_decimal_one_digit:
  assumes "digit_of ch = Some d" and "rest = [] \<or> isspace (hd rest)"
  shows "get_decimal (ch # rest) = (Converted (real d), rest)"
proof -
  from assms(1) have "d < 10" by (simp split: if_splits)
  then have "real d < 10 ^ 300" by (simp add: less_le_trans [of _ 10])
  with double_overflow_large have small: "\<not> double_overflow \<le> real d" by simp
  show ?thesis
  proof (cases rest)
  case Nil
  with assms(1) small show ?thesis
    by (simp add: get_decimal_def isdigit_def scale10_def split: if_splits)
next
  case (Cons c cs)
  with assms(2) have sp: "isspace c" by simp
  then have nd: "\<not> isdigit c" by (rule isspace_not_digit)
  from sp have ne: "c \<noteq> CHR ''.''" "c \<noteq> CHR ''e''" "c \<noteq> CHR ''E''"
    by (auto simp add: isspace_def)
  from assms(1) have s: "scan_sign (ch # c # cs) = (False, ch # c # cs)" and dg: "isdigit ch"
    by (auto simp add: isdigit_def split: if_splits)
  show ?thesis
    unfolding Cons get_decimal_def s
    using nd ne dg assms(1) small by (simp add: scale10_def)
  qed
qed

lemma floor_log10:
  assumes "10 ^ k \<le> a" and "a < 10 ^ Suc k"
  shows "\<lfloor>log 10 (a::real)\<rfloor> = int k"
proof -
  have "0 < (10::real) ^ k" by simp
  with assms(1) have pos: "0 < a" by linarith
  have "real k \<le> log 10 a"
    using assms(1) pos by (simp add: le_log_iff powr_realpow)
  moreover have "log 10 a < real k + 1"
  proof -
    have e: "(10::real) powr real (Suc k) = 10 ^ Suc k" by (rule powr_realpow) simp
    have "a < 10 powr real (Suc k)" using assms(2) unfolding e .
    then have "log 10 a < real (Suc k)" using pos by (simp only: log_less_iff)
    then show ?thesis by simp
  qed
  ultimately show ?thesis by (simp add: floor_eq_iff)
qed

lemma significant_digits:
  "significant 1 = (100000, 0)" "significant 2 = (200000, 0)" "significant 3 = (300000, 0)"
proof -
  have "\<lfloor>log 10 (2::real)\<rfloor> = int 0" "\<lfloor>log 10 (3::real)\<rfloor> = int 0"
    by (rule floor_log10; simp)+
  then show "significant 1 = (100000, 0)" "significant 2 = (200000, 0)"
    "significant 3 = (300000, 0)"
    by (simp_all add: significant_def scale10_def round_half_even_def Let_def)
qed

lemmas format_defs = fixed_notation_def scientific_notation_def with_point_def strip_zeros_def
  exponent_part_def decimal.simps digit_char_def

lemma put_g6_1: "put_g6 1 = ''1''"
  by (simp add: put_g6_def significant_digits format_defs)

lemma put_g6_2: "put_g6 2 = ''2''"
  by (simp add: put_g6_def significant_digits format_defs)

lemma put_g6_3: "put_g6 3 = ''3''"
  by (simp add: put_g6_def significant_digits format_defs)

lemma put_g6_0: "put_g6 0 = ''0''"
  by (simp add: put_g6_def)

text \<open>
  The two conversions on values whose texts are known: the fixed and the scientific
  notation, the dropped zeros, a tie rounded to even that carries into the exponent,
  and fields that do not convert.
\<close>

lemma floor_log10_below_one:
  assumes "1 \<le> a * 10 ^ k" and "a * 10 ^ k < 10"
  shows "\<lfloor>log 10 (a::real)\<rfloor> = - int k"
proof -
  have p: "0 < (10::real) ^ k" by simp
  have pos: "0 < a"
  proof (rule ccontr)
    assume "\<not> 0 < a"
    then have "a * 10 ^ k \<le> 0" using p by (simp add: mult_le_0_iff)
    with assms(1) show False by simp
  qed
  have "\<lfloor>log 10 (a * 10 ^ k)\<rfloor> = int 0"
    using assms by (intro floor_log10) simp_all
  moreover have "log 10 (a * 10 ^ k) = log 10 a + real k"
    using pos by (simp add: log_mult log_nat_power)
  ultimately have "\<lfloor>log 10 a + real k\<rfloor> = 0" by simp
  then have "\<lfloor>log 10 a\<rfloor> + int k = 0"
    by (metis floor_add_int of_int_of_nat_eq)
  then show ?thesis by simp
qed

lemma put_g6_examples:
  "put_g6 (1 / 2) = ''0.5''"
  "put_g6 (- (25 / 2)) = ''-12.5''"
  "put_g6 100000 = ''100000''"
  "put_g6 1000000 = ''1e+06''"
  "put_g6 (1 / 100000) = ''1e-05''"
  "put_g6 (1234567 / 10000000) = ''0.123457''"
  "put_g6 (1999999 / 2) = ''1e+06''"
proof -
  have f: "\<lfloor>log 10 (1 / 2 :: real)\<rfloor> = - int 1" "\<lfloor>log 10 (25 / 2 :: real)\<rfloor> = int 1"
    "\<lfloor>log 10 (100000 :: real)\<rfloor> = int 5" "\<lfloor>log 10 (1000000 :: real)\<rfloor> = int 6"
    "\<lfloor>log 10 (1 / 100000 :: real)\<rfloor> = - int 5"
    "\<lfloor>log 10 (1234567 / 10000000 :: real)\<rfloor> = - int 1"
    "\<lfloor>log 10 (1999999 / 2 :: real)\<rfloor> = int 5"
    by (rule floor_log10 floor_log10_below_one; simp)+
  have d: "decimal 500000 = ''500000''" "decimal 125000 = ''125000''"
    "decimal 100000 = ''100000''" "decimal 123457 = ''123457''"
    by (simp_all add: decimal.simps digit_char_def)
  show "put_g6 (1 / 2) = ''0.5''" "put_g6 (- (25 / 2)) = ''-12.5''"
    "put_g6 100000 = ''100000''" "put_g6 1000000 = ''1e+06''"
    "put_g6 (1 / 100000) = ''1e-05''"
    "put_g6 (1234567 / 10000000) = ''0.123457''"
    "put_g6 (1999999 / 2) = ''1e+06''"
    using f
    by (simp_all add: put_g6_def significant_def scale10_def round_half_even_def Let_def d
        fixed_notation_def scientific_notation_def with_point_def strip_zeros_def
        exponent_part_def decimal.simps digit_char_def)
qed

lemma get_decimal_examples:
  "get_decimal ''1.5e3'' = (Converted 1500, [])"
  "get_decimal ''-0.25 1'' = (Converted (- (1 / 4)), '' 1'')"
  "get_decimal ''.5'' = (Converted (1 / 2), [])"
  "get_decimal ''1e-05'' = (Converted (1 / 100000), [])"
  "fst (get_decimal ''#'') = Not_converted"
  "fst (get_decimal ''-'') = Not_converted"
  "fst (get_decimal ''1e'') = Not_converted"
  "fst (get_decimal ''1e400'') = Too_large_positive"
  "fst (get_decimal ''-1e400'') = Too_large_negative"
  "fst (get_decimal ''1e308'') = Converted (10 ^ 308)"
  by (simp_all add: get_decimal_def isdigit_def scale10_def double_overflow_def)

lemma reads_back_1: "reads_back put_g6 get_decimal 1"
  using get_decimal_one_digit [of "CHR ''1''" 1]
  by (simp add: reads_back_def put_g6_1 isspace_def)

lemma reads_back_2: "reads_back put_g6 get_decimal 2"
  using get_decimal_one_digit [of "CHR ''2''" 2]
  by (simp add: reads_back_def put_g6_2 isspace_def)

lemma reads_back_3: "reads_back put_g6 get_decimal 3"
  using get_decimal_one_digit [of "CHR ''3''" 3]
  by (simp add: reads_back_def put_g6_3 isspace_def)

lemma m_scenario1: "m_x (scenario1 0) = 1" "m_y (scenario1 0) = 2" "m_z (scenario1 0) = 3"
  by (simp_all add: scenario1_def Vector3D_xyz_def)

text \<open>
  The vector (1,2,3) of real scalars is written as \<^verbatim>\<open>1 2 3\<close>, and each of its
  components reads back.
\<close>

theorem text_round_trip_witness:
  "reads_back put_g6 get_decimal 1 \<and> reads_back put_g6 get_decimal 2
   \<and> reads_back put_g6 get_decimal 3
   \<and> operator_shift_left put_g6 [] scenario1 (Vec 0) = ''1 2 3''
   \<and> operator_shift_right (num_extract double_limits get_decimal) (input ''1 2 3'') 1 scenario1
       = (\<lparr>buffer = [], failbit = False\<rparr>, scenario1(1 := scenario1 0))"
proof -
  have a: "reads_back put_g6 get_decimal (m_x (scenario1 0))"
    and b: "reads_back put_g6 get_decimal (m_y (scenario1 0))"
    and c: "reads_back put_g6 get_decimal (m_z (scenario1 0))"
    by (simp_all add: m_scenario1 reads_back_1 reads_back_2 reads_back_3)
  note round_trip = text_round_trip [where put = put_g6 and get = get_decimal
      and limits = double_limits and s = scenario1 and v = 0 and w = 1 and s' = scenario1, OF a b c]
  have written: "operator_shift_left put_g6 [] scenario1 (Vec 0) = ''1 2 3''"
    using round_trip [THEN conjunct1]
    by (simp add: m_scenario1 put_g6_1 put_g6_2 put_g6_3)
  have "operator_shift_right (num_extract double_limits get_decimal) (input ''1 2 3'') 1 scenario1
       = (\<lparr>buffer = [], failbit = False\<rparr>, scenario1(1 := scenario1 0))"
    using round_trip [THEN conjunct2] unfolding written .
  with written reads_back_1 reads_back_2 reads_back_3 show ?thesis by blast
qed

lemma significant_1234567: "significant 1234567 = (123457, 6)"
proof -
  have "\<lfloor>log 10 (1234567::real)\<rfloor> = int 6" by (rule floor_log10) simp_all
  then show ?thesis
    by (simp add: significant_def scale10_def round_half_even_def Let_def)
qed

lemma put_g6_1234567: "put_g6 1234567 = ''1.23457e+06''"
  by (simp add: put_g6_def significant_1234567 format_defs)

lemma written_1234567:
  "operator_shift_left put_g6 [] store_1234567 (Vec 0) = ''1.23457e+06 0 0''"
  by (simp add: operator_shift_left_def x_def y_def z_def store_1234567_def Vector3D_xyz_def
      put_g6_1234567 put_g6_0)

lemma extract_1234570:
  "num_extract double_limits get_decimal (input ''1.23457e+06 0 0'') val = (\<lparr>buffer = '' 0 0'', failbit = False\<rparr>, 1234570)"
  "num_extract double_limits get_decimal \<lparr>buffer = '' 0 0'', failbit = False\<rparr> val = (\<lparr>buffer = '' 0'', failbit = False\<rparr>, 0)"
  "num_extract double_limits get_decimal \<lparr>buffer = '' 0'', failbit = False\<rparr> val = (\<lparr>buffer = [], failbit = False\<rparr>, 0)"
  by (simp_all add: scan_defs)

text \<open>
  Claim C8 as stated fails for a component with more than six significant digits:
  the vector (1234567,0,0) is written as \<^verbatim>\<open>1.23457e+06 0 0\<close>, which reads back as
  (1234570,0,0).
\<close>

theorem seven_digits_do_not_read_back:
  "store_1234567 0 = Vector3D_xyz 1234567 0 0
   \<and> operator_shift_left put_g6 [] store_1234567 (Vec 0) = ''1.23457e+06 0 0''
   \<and> operator_shift_right (num_extract double_limits get_decimal)
        (input (operator_shift_left put_g6 [] store_1234567 (Vec 0))) 1 store_1234567
       = (\<lparr>buffer = [], failbit = False\<rparr>, store_1234567(1 := Vector3D_xyz 1234570 0 0))
   \<and> snd (operator_shift_right (num_extract double_limits get_decimal)
        (input (operator_shift_left put_g6 [] store_1234567 (Vec 0))) 1 store_1234567) 1
       \<noteq> store_1234567 0"
  unfolding written_1234567 operator_shift_right_steps extract_1234570 fst_conv snd_conv
  by (simp add: store_1234567_def Vector3D_xyz_def)

end
